theory Spec2Isabelle
  imports Complex_Main
begin

section \<open>Kernel approximation: random and deterministic Fourier feature maps\<close>

text \<open>
  A model of \<^verbatim>\<open>sklearn/kernel_approximation.py\<close>: the three feature maps
  \<^verbatim>\<open>RBFSampler\<close>, \<^verbatim>\<open>SkewedChi2Sampler\<close> and \<^verbatim>\<open>AdditiveChi2Sampler\<close>,
  each with its \<^verbatim>\<open>fit\<close> and \<^verbatim>\<open>transform\<close> method.

  Conventions of the model.
  \<^item> A float is a \<^typ>\<open>real\<close>: rounding, \<^verbatim>\<open>inf\<close> and \<^verbatim>\<open>nan\<close> are not modelled, so the
    theorems speak about the formulas the code evaluates, not about their float64 values.
  \<^item> A dense 2-D array is a record of its column count and its rows; every array numpy
    can build is rectangular (\<open>wf_matrix\<close>).
  \<^item> A method takes the object and its arguments and returns the value it returns, or
    the exception it raises, paired with the object as the call leaves it.
\<close>

subsection \<open>Exceptions\<close>

datatype error = ValueError string | AttributeError string | TypeError string

type_synonym ('a, 's) outcome = "(error + 'a) \<times> 's"

subsection \<open>Dense arrays\<close>

record matrix =
  ncols :: nat
  rows :: "real list list"

definition nrows :: "matrix \<Rightarrow> nat" where
  "nrows M = length (rows M)"

definition wf_matrix :: "matrix \<Rightarrow> bool" where
  "wf_matrix M = list_all (\<lambda>r. length r = ncols M) (rows M)"

text \<open>The entry at row \<open>i\<close>, column \<open>j\<close> (used in statements, inside the shape only).\<close>

definition entry :: "matrix \<Rightarrow> nat \<Rightarrow> nat \<Rightarrow> real" where
  "entry M i j = rows M ! i ! j"

text \<open>An element-wise function of one array: \<^verbatim>\<open>np.sqrt(A)\<close>, \<^verbatim>\<open>2 * A\<close>, \<^verbatim>\<open>A / c\<close>.\<close>

definition map_matrix :: "(real \<Rightarrow> real) \<Rightarrow> matrix \<Rightarrow> matrix" where
  "map_matrix f M = \<lparr>ncols = ncols M, rows = map (map f) (rows M)\<rparr>"

text \<open>
  An element-wise function of two arrays of one shape: \<^verbatim>\<open>A * B\<close>. The code only
  combines arrays computed element-wise from the same input, which share its shape.
\<close>

definition map2_matrix :: "(real \<Rightarrow> real \<Rightarrow> real) \<Rightarrow> matrix \<Rightarrow> matrix \<Rightarrow> matrix" where
  "map2_matrix f A B = \<lparr>ncols = ncols A, rows = map2 (map2 f) (rows A) (rows B)\<rparr>"

text \<open>\<^verbatim>\<open>(X < 0).any()\<close> and \<^verbatim>\<open>(X <= 0).any()\<close>: some entry satisfies the test.\<close>

definition any_entry :: "(real \<Rightarrow> bool) \<Rightarrow> matrix \<Rightarrow> bool" where
  "any_entry P M = list_ex (list_ex P) (rows M)"

text \<open>
  \<^verbatim>\<open>np.hstack\<close> of a list of 2-D arrays: the arrays side by side, in the order of the
  list. numpy refuses an empty list and arrays whose row counts differ.
\<close>

definition hstack_row :: "matrix list \<Rightarrow> nat \<Rightarrow> real list" where
  "hstack_row Ms i = concat (map (\<lambda>N. rows N ! i) Ms)"

fun hstack :: "matrix list \<Rightarrow> error + matrix" where
  "hstack [] = Inl (ValueError ''need at least one array to concatenate'')"
| "hstack (M # Ms) =
     (if list_all (\<lambda>N. nrows N = nrows M) Ms
      then Inr \<lparr>ncols = sum_list (map ncols (M # Ms)),
                rows = map (hstack_row (M # Ms)) [0..<nrows M]\<rparr>
      else Inl (ValueError ''all the input array dimensions except for the concatenation axis must match exactly''))"

subsection \<open>AdditiveChi2Sampler\<close>

record AdditiveChi2Sampler =
  sample_steps :: int
  sample_interval :: "real option"

text \<open>\<^verbatim>\<open>__init__(self, sample_steps=2, sample_interval=None)\<close>\<close>

definition AdditiveChi2Sampler_init :: "int \<Rightarrow> real option \<Rightarrow> AdditiveChi2Sampler" where
  "AdditiveChi2Sampler_init steps interval =
     \<lparr>sample_steps = steps, sample_interval = interval\<rparr>"

text \<open>\<^verbatim>\<open>fit(self, X, y=None)\<close>: sets the default interval, or raises; returns \<^verbatim>\<open>self\<close>.\<close>

definition AdditiveChi2Sampler_fit ::
  "AdditiveChi2Sampler \<Rightarrow> matrix \<Rightarrow> (AdditiveChi2Sampler, AdditiveChi2Sampler) outcome" where
  "AdditiveChi2Sampler_fit self X =
     (if sample_interval self = None then
        (if sample_steps self = 1 then
           (let self' = self\<lparr>sample_interval := Some 0.8\<rparr> in (Inr self', self'))
         else if sample_steps self = 2 then
           (let self' = self\<lparr>sample_interval := Some 0.5\<rparr> in (Inr self', self'))
         else if sample_steps self = 3 then
           (let self' = self\<lparr>sample_interval := Some 0.4\<rparr> in (Inr self', self'))
         else
           (Inl (ValueError ''If sample_steps is not in [1, 2, 3], you needto provide sample_interval''),
            self))
      else (Inr self, self))"

text \<open>
  The body of the loop \<^verbatim>\<open>for j in xrange(1, self.sample_steps)\<close> of \<^verbatim>\<open>transform\<close>, run
  over the values of \<open>j\<close> in order; \<open>X_new\<close> is the list the loop appends to.
\<close>

fun chi2_loop :: "real \<Rightarrow> matrix \<Rightarrow> matrix \<Rightarrow> int list \<Rightarrow> matrix list \<Rightarrow> matrix list" where
  "chi2_loop si step log_step [] X_new = X_new"
| "chi2_loop si step log_step (j # js) X_new =
     (let factor = map_matrix sqrt (map_matrix (\<lambda>v. v / cosh (pi * real_of_int j * si)) step);
          X_new1 = X_new @ [map2_matrix (*) factor
                              (map_matrix cos (map_matrix (\<lambda>v. real_of_int j * v) log_step))];
          X_new2 = X_new1 @ [map2_matrix (*) factor
                               (map_matrix sin (map_matrix (\<lambda>v. real_of_int j * v) log_step))]
      in chi2_loop si step log_step js X_new2)"

text \<open>\<^verbatim>\<open>xrange(1, n)\<close>: the integers from 1 up to \<open>n - 1\<close>, none when \<open>n \<le> 1\<close>.\<close>

definition xrange1 :: "int \<Rightarrow> int list" where
  "xrange1 n = [1..n - 1]"

text \<open>
  \<^verbatim>\<open>transform(self, X, y=None)\<close>. The test of \<open>X\<close> comes first; an unset interval then
  fails in \<^verbatim>\<open>X * self.sample_interval\<close>, a product with \<^verbatim>\<open>None\<close>.
\<close>

definition AdditiveChi2Sampler_transform ::
  "AdditiveChi2Sampler \<Rightarrow> matrix \<Rightarrow> (matrix, AdditiveChi2Sampler) outcome" where
  "AdditiveChi2Sampler_transform self X =
     (if any_entry (\<lambda>x. x \<le> 0) X then
        (Inl (ValueError ''Entries of X must be strictly positive.''), self)
      else
        (case sample_interval self of
           None \<Rightarrow> (Inl (TypeError ''unsupported operand type(s) for *''), self)
         | Some si \<Rightarrow>
            (let X_new = [map_matrix sqrt (map_matrix (\<lambda>x. x * si / cosh 0) X)];
                 log_step = map_matrix (\<lambda>v. si * v) (map_matrix ln X);
                 step = map_matrix (\<lambda>x. 2 * x * si) X
             in (hstack (chi2_loop si step log_step (xrange1 (sample_steps self)) X_new), self))))"

text \<open>
  Modelled from the words of the specification, to compare with the code: each input
  feature value is expanded into its zeroth component and its cosine and sine pairs, and
  the expansions of the features of a row are put one after the other.
\<close>

definition chi2_component_cos :: "real \<Rightarrow> int \<Rightarrow> real \<Rightarrow> real" where
  "chi2_component_cos si j x =
     sqrt (2 * x * si / cosh (pi * real_of_int j * si)) * cos (real_of_int j * si * ln x)"

definition chi2_component_sin :: "real \<Rightarrow> int \<Rightarrow> real \<Rightarrow> real" where
  "chi2_component_sin si j x =
     sqrt (2 * x * si / cosh (pi * real_of_int j * si)) * sin (real_of_int j * si * ln x)"

definition spec_feature_expansion :: "real \<Rightarrow> int \<Rightarrow> real \<Rightarrow> real list" where
  "spec_feature_expansion si steps x =
     sqrt (x * si) #
     concat (map (\<lambda>j. [chi2_component_cos si j x, chi2_component_sin si j x]) (xrange1 steps))"

definition spec_feature_major :: "real \<Rightarrow> int \<Rightarrow> matrix \<Rightarrow> matrix" where
  "spec_feature_major si steps X =
     \<lparr>ncols = ncols X * nat (2 * steps - 1),
      rows = map (\<lambda>r. concat (map (spec_feature_expansion si steps) r)) (rows X)\<rparr>"

text \<open>
  The component functions of one feature value, in the order in which \<^verbatim>\<open>transform\<close>
  appends their blocks to \<open>X_new\<close>: the zeroth component, then for each \<open>j\<close> the cosine
  and the sine component. \<open>component_major\<close> is the array whose rows hold, for each
  component function in turn, its values on all the features of the input row.
\<close>

definition chi2_components :: "real \<Rightarrow> int \<Rightarrow> (real \<Rightarrow> real) list" where
  "chi2_components si steps =
     (\<lambda>x. sqrt (x * si)) #
     concat (map (\<lambda>j. [chi2_component_cos si j, chi2_component_sin si j]) (xrange1 steps))"

definition component_major :: "real \<Rightarrow> int \<Rightarrow> matrix \<Rightarrow> matrix" where
  "component_major si steps X =
     \<lparr>ncols = ncols X * length (chi2_components si steps),
      rows = map (\<lambda>r. concat (map (\<lambda>f. map f r) (chi2_components si steps))) (rows X)\<rparr>"

text \<open>
  A later call sequence on one object: each call assigns \<^verbatim>\<open>sample_steps\<close> and then
  calls \<^verbatim>\<open>fit\<close>; the first exception ends the sequence.
\<close>

fun refit :: "AdditiveChi2Sampler \<Rightarrow> (int \<times> matrix) list \<Rightarrow> error + AdditiveChi2Sampler" where
  "refit self [] = Inr self"
| "refit self ((steps, X) # calls) =
     (case AdditiveChi2Sampler_fit (self\<lparr>sample_steps := steps\<rparr>) X of
        (Inl e, _) \<Rightarrow> Inl e
      | (Inr _, self') \<Rightarrow> refit self' calls)"

subsection \<open>The random generator\<close>

text \<open>
  numpy's \<^verbatim>\<open>RandomState\<close> is not part of the module, so its operations are a
  parameter of the model: seeding, the global generator that \<^verbatim>\<open>None\<close> stands for, one
  standard-normal draw and one uniform draw between two bounds. A draw returns the value
  and the generator as it is afterwards. What is known of the values drawn is a
  hypothesis of the theorems that need it.
\<close>

record 'g rng =
  seeded :: "int \<Rightarrow> 'g"
  global_rng :: "'g"
  normal1 :: "'g \<Rightarrow> real \<times> 'g"
  uniform1 :: "real \<Rightarrow> real \<Rightarrow> 'g \<Rightarrow> real \<times> 'g"

datatype 'g random_state = RS_None | RS_Seed int | RS_Instance 'g

text \<open>
  Modelled from the spec: \<^verbatim>\<open>sklearn.utils.check_random_state\<close> is not in the sources;
  given a seed or an existing generator instance it returns a generator instance.
\<close>

definition check_random_state :: "'g rng \<Rightarrow> 'g random_state \<Rightarrow> 'g" where
  "check_random_state R seed =
     (case seed of RS_None \<Rightarrow> global_rng R | RS_Seed n \<Rightarrow> seeded R n | RS_Instance g \<Rightarrow> g)"

text \<open>Arrays of draws are filled in row-major order, one draw after the other.\<close>

fun draw_list :: "('g \<Rightarrow> real \<times> 'g) \<Rightarrow> nat \<Rightarrow> 'g \<Rightarrow> real list \<times> 'g" where
  "draw_list d 0 g = ([], g)"
| "draw_list d (Suc n) g =
     (case d g of (x, g1) \<Rightarrow> (case draw_list d n g1 of (xs, g2) \<Rightarrow> (x # xs, g2)))"

fun draw_rows :: "('g \<Rightarrow> real \<times> 'g) \<Rightarrow> nat \<Rightarrow> nat \<Rightarrow> 'g \<Rightarrow> real list list \<times> 'g" where
  "draw_rows d 0 c g = ([], g)"
| "draw_rows d (Suc r) c g =
     (case draw_list d c g of (row, g1) \<Rightarrow>
        (case draw_rows d r c g1 of (rs, g2) \<Rightarrow> (row # rs, g2)))"

text \<open>
  \<^verbatim>\<open>normal(size=(r, c))\<close>, \<^verbatim>\<open>uniform(low, high, size=(r, c))\<close> and
  \<^verbatim>\<open>uniform(low, high, size=n)\<close>; numpy refuses a negative dimension.
\<close>

definition RandomState_normal ::
  "'g rng \<Rightarrow> nat \<Rightarrow> int \<Rightarrow> 'g \<Rightarrow> error + (matrix \<times> 'g)" where
  "RandomState_normal R r c g =
     (if c < 0 then Inl (ValueError ''negative dimensions are not allowed'')
      else (case draw_rows (normal1 R) r (nat c) g of
              (rs, g') \<Rightarrow> Inr (\<lparr>ncols = nat c, rows = rs\<rparr>, g')))"

definition RandomState_uniform2 ::
  "'g rng \<Rightarrow> real \<Rightarrow> real \<Rightarrow> nat \<Rightarrow> int \<Rightarrow> 'g \<Rightarrow> error + (matrix \<times> 'g)" where
  "RandomState_uniform2 R low high r c g =
     (if c < 0 then Inl (ValueError ''negative dimensions are not allowed'')
      else (case draw_rows (uniform1 R low high) r (nat c) g of
              (rs, g') \<Rightarrow> Inr (\<lparr>ncols = nat c, rows = rs\<rparr>, g')))"

definition RandomState_uniform ::
  "'g rng \<Rightarrow> real \<Rightarrow> real \<Rightarrow> int \<Rightarrow> 'g \<Rightarrow> error + (real list \<times> 'g)" where
  "RandomState_uniform R low high n g =
     (if n < 0 then Inl (ValueError ''negative dimensions are not allowed'')
      else Inr (draw_list (uniform1 R low high) (nat n) g))"

text \<open>
  The generator after \<open>k\<close> draws and the value of draw number \<open>k\<close> (counted from 0): the
  names by which the theorems refer to the draws.
\<close>

definition gen_after :: "('g \<Rightarrow> real \<times> 'g) \<Rightarrow> nat \<Rightarrow> 'g \<Rightarrow> 'g" where
  "gen_after d k g = ((\<lambda>h. snd (d h)) ^^ k) g"

definition nth_draw :: "('g \<Rightarrow> real \<times> 'g) \<Rightarrow> nat \<Rightarrow> 'g \<Rightarrow> real" where
  "nth_draw d k g = fst (d (gen_after d k g))"

text \<open>A small deterministic generator, to run the model on concrete inputs.\<close>

definition demo_rng :: "nat rng" where
  "demo_rng = \<lparr>seeded = (\<lambda>n. nat \<bar>n\<bar>), global_rng = 0,
               normal1 = (\<lambda>g. (real g + 1, Suc g)),
               uniform1 = (\<lambda>low high g. (low + (high - low) / (real g + 2), Suc g))\<rparr>"

subsection \<open>Matrix product and broadcasting\<close>

definition dot :: "real list \<Rightarrow> real list \<Rightarrow> real" where
  "dot u v = sum_list (map2 (*) u v)"

definition column :: "matrix \<Rightarrow> nat \<Rightarrow> real list" where
  "column M j = map (\<lambda>r. r ! j) (rows M)"

text \<open>
  Modelled from the spec: \<^verbatim>\<open>sklearn.utils.extmath.safe_sparse_dot\<close> is not in the
  sources; it returns the dense mathematical product of its operands and fails with a
  shape mismatch when the left operand's column count is not the right one's row count.
\<close>

definition safe_sparse_dot :: "matrix \<Rightarrow> matrix \<Rightarrow> error + matrix" where
  "safe_sparse_dot A B =
     (if ncols A \<noteq> nrows B then Inl (ValueError ''matrices are not aligned'')
      else Inr \<lparr>ncols = ncols B,
                rows = map (\<lambda>r. map (\<lambda>j. dot r (column B j)) [0..<ncols B]) (rows A)\<rparr>)"

text \<open>
  \<^verbatim>\<open>A + b\<close> for a 2-D array and a 1-D array, by numpy's broadcasting: \<open>b\<close> is added to
  every row when the lengths agree, a one-element \<open>b\<close> is added to every entry, a
  one-column \<open>A\<close> is stretched to the length of \<open>b\<close>, and anything else is refused.
\<close>

definition add_broadcast :: "matrix \<Rightarrow> real list \<Rightarrow> error + matrix" where
  "add_broadcast A b =
     (if length b = ncols A then Inr \<lparr>ncols = ncols A, rows = map (\<lambda>r. map2 (+) r b) (rows A)\<rparr>
      else if length b = 1 then Inr (map_matrix (\<lambda>x. x + b ! 0) A)
      else if ncols A = 1 then
        Inr \<lparr>ncols = length b, rows = map (\<lambda>r. map (\<lambda>y. r ! 0 + y) b) (rows A)\<rparr>
      else Inl (ValueError ''operands could not be broadcast together''))"

subsection \<open>RBFSampler and SkewedChi2Sampler\<close>

text \<open>
  The two samplers hold the same attributes but for their kernel parameter. The shared
  ones are declared once, so that both records keep the attribute names of the source;
  an attribute that \<^verbatim>\<open>fit\<close> has not assigned yet is \<open>None\<close>. The fields
  \<open>random_weights\<close> and \<open>random_offset\<close> are the attributes \<^verbatim>\<open>random_weights_\<close> and
  \<^verbatim>\<open>random_offset_\<close>: a name of the logic cannot end with an underscore.
\<close>

record 'g sampler_attrs =
  n_components :: int
  random_state :: "'g random_state"
  random_weights :: "matrix option"
  random_offset :: "real list option"

record 'g RBFSampler = "'g sampler_attrs" +
  gamma :: real

record 'g SkewedChi2Sampler = "'g sampler_attrs" +
  skewedness :: real

text \<open>\<^verbatim>\<open>__init__\<close> of the two classes.\<close>

definition RBFSampler_init :: "real \<Rightarrow> int \<Rightarrow> 'g random_state \<Rightarrow> 'g RBFSampler" where
  "RBFSampler_init gam n rs =
     \<lparr>n_components = n, random_state = rs, random_weights = None, random_offset = None,
      gamma = gam\<rparr>"

definition SkewedChi2Sampler_init ::
  "real \<Rightarrow> int \<Rightarrow> 'g random_state \<Rightarrow> 'g SkewedChi2Sampler" where
  "SkewedChi2Sampler_init sk n rs =
     \<lparr>n_components = n, random_state = rs, random_weights = None, random_offset = None,
      skewedness = sk\<rparr>"

text \<open>\<^verbatim>\<open>RBFSampler.fit(self, X, y=None)\<close>\<close>

definition RBFSampler_fit ::
  "'g rng \<Rightarrow> 'g RBFSampler \<Rightarrow> matrix \<Rightarrow> ('g RBFSampler, 'g RBFSampler) outcome" where
  "RBFSampler_fit R self X =
     (let g0 = check_random_state R (random_state self);
          self1 = self\<lparr>random_state := RS_Instance g0\<rparr>;
          n_features = ncols X
      in case RandomState_normal R n_features (n_components self1) g0 of
           Inl e \<Rightarrow> (Inl e, self1)
         | Inr (N, g1) \<Rightarrow>
            (let self2 = self1\<lparr>random_state := RS_Instance g1,
                   random_weights := Some (map_matrix (\<lambda>z. sqrt (gamma self1) * z) N)\<rparr>
             in case RandomState_uniform R 0 (2 * pi) (n_components self2) g1 of
                  Inl e \<Rightarrow> (Inl e, self2)
                | Inr (b, g2) \<Rightarrow>
                   (let self3 = self2\<lparr>random_state := RS_Instance g2,
                          random_offset := Some b\<rparr>
                    in (Inr self3, self3))))"

text \<open>
  The last line of both \<^verbatim>\<open>transform\<close> methods:
  \<^verbatim>\<open>np.sqrt(2.) / np.sqrt(self.n_components) * np.cos(projection + self.random_offset_)\<close>
\<close>

definition cos_features ::
  "('g, 'a) sampler_attrs_scheme \<Rightarrow> matrix \<Rightarrow> error + matrix" where
  "cos_features self projection =
     (case random_offset self of
        None \<Rightarrow> Inl (AttributeError ''random_offset_'')
      | Some b \<Rightarrow>
         (case add_broadcast projection b of
            Inl e \<Rightarrow> Inl e
          | Inr A \<Rightarrow>
             Inr (map_matrix (\<lambda>v. sqrt 2 / sqrt (real_of_int (n_components self)) * v)
                    (map_matrix cos A))))"

text \<open>\<^verbatim>\<open>RBFSampler.transform(self, X, y=None)\<close>\<close>

definition RBFSampler_transform ::
  "'g RBFSampler \<Rightarrow> matrix \<Rightarrow> (matrix, 'g RBFSampler) outcome" where
  "RBFSampler_transform self X =
     (case random_weights self of
        None \<Rightarrow> (Inl (AttributeError ''random_weights_''), self)
      | Some W \<Rightarrow>
         (case safe_sparse_dot X W of
            Inl e \<Rightarrow> (Inl e, self)
          | Inr projection \<Rightarrow> (cos_features self projection, self)))"

text \<open>\<^verbatim>\<open>SkewedChi2Sampler.fit(self, X, y=None)\<close>\<close>

definition SkewedChi2Sampler_fit ::
  "'g rng \<Rightarrow> 'g SkewedChi2Sampler \<Rightarrow> matrix
     \<Rightarrow> ('g SkewedChi2Sampler, 'g SkewedChi2Sampler) outcome" where
  "SkewedChi2Sampler_fit R self X =
     (let g0 = check_random_state R (random_state self);
          self1 = self\<lparr>random_state := RS_Instance g0\<rparr>;
          n_features = ncols X
      in case RandomState_uniform2 R 0 1 n_features (n_components self1) g0 of
           Inl e \<Rightarrow> (Inl e, self1)
         | Inr (uniform, g1) \<Rightarrow>
            (let self2 = self1\<lparr>random_state := RS_Instance g1,
                   random_weights :=
                     Some (map_matrix (\<lambda>u. 1 / pi * ln (tan (pi / 2 * u))) uniform)\<rparr>
             in case RandomState_uniform R 0 (2 * pi) (n_components self2) g1 of
                  Inl e \<Rightarrow> (Inl e, self2)
                | Inr (b, g2) \<Rightarrow>
                   (let self3 = self2\<lparr>random_state := RS_Instance g2,
                          random_offset := Some b\<rparr>
                    in (Inr self3, self3))))"

text \<open>\<^verbatim>\<open>SkewedChi2Sampler.transform(self, X, y=None)\<close>\<close>

definition SkewedChi2Sampler_transform ::
  "'g SkewedChi2Sampler \<Rightarrow> matrix \<Rightarrow> (matrix, 'g SkewedChi2Sampler) outcome" where
  "SkewedChi2Sampler_transform self X =
     (if any_entry (\<lambda>x. x < 0) X then
        (Inl (ValueError ''X may not contain entries smaller than zero.''), self)
      else
        (let L = map_matrix ln (map_matrix (\<lambda>x. x + skewedness self) X) in
         case random_weights self of
           None \<Rightarrow> (Inl (AttributeError ''random_weights_''), self)
         | Some W \<Rightarrow>
            (case safe_sparse_dot L W of
               Inl e \<Rightarrow> (Inl e, self)
             | Inr projection \<Rightarrow> (cos_features self projection, self))))"

text \<open>
  The comment of \<^verbatim>\<open>SkewedChi2Sampler.fit\<close> calls its transform of the uniform draws
  the inverse CDF of \<open>sech\<close>. The distribution function meant is the one whose density
  is \<open>1 / cosh (pi * w)\<close>.
\<close>

definition sech_cdf :: "real \<Rightarrow> real" where
  "sech_cdf w = 2 / pi * arctan (exp (pi * w))"

section \<open>Properties\<close>

subsection \<open>AdditiveChi2Sampler.fit\<close>

lemma fit_interval_set:
  "sample_interval self = Some v \<Longrightarrow> AdditiveChi2Sampler_fit self X = (Inr self, self)"
  by (simp add: AdditiveChi2Sampler_fit_def)

text \<open>
  Claim C6. With \<open>sample_interval\<close> unset, \<open>fit\<close> sets it to 0.8 for one step, 0.5 for two
  and 0.4 for three, and raises the configuration error for every other \<open>sample_steps\<close>,
  whatever \<open>X\<close> is; with \<open>sample_interval\<close> set, \<open>fit\<close> succeeds for every
  \<open>sample_steps\<close> and leaves the object as it was. So four steps with the interval 0.3
  succeed and keep 0.3, and four steps with no interval fail.
\<close>

theorem fit_default_interval:
  "AdditiveChi2Sampler_fit \<lparr>sample_steps = s, sample_interval = None\<rparr> X =
     (if s = 1 then (Inr \<lparr>sample_steps = s, sample_interval = Some 0.8\<rparr>,
                     \<lparr>sample_steps = s, sample_interval = Some 0.8\<rparr>)
      else if s = 2 then (Inr \<lparr>sample_steps = s, sample_interval = Some 0.5\<rparr>,
                     \<lparr>sample_steps = s, sample_interval = Some 0.5\<rparr>)
      else if s = 3 then (Inr \<lparr>sample_steps = s, sample_interval = Some 0.4\<rparr>,
                     \<lparr>sample_steps = s, sample_interval = Some 0.4\<rparr>)
      else (Inl (ValueError ''If sample_steps is not in [1, 2, 3], you needto provide sample_interval''),
            \<lparr>sample_steps = s, sample_interval = None\<rparr>))
   \<and> AdditiveChi2Sampler_fit \<lparr>sample_steps = s, sample_interval = Some v\<rparr> X =
       (Inr \<lparr>sample_steps = s, sample_interval = Some v\<rparr>,
        \<lparr>sample_steps = s, sample_interval = Some v\<rparr>)
   \<and> AdditiveChi2Sampler_fit \<lparr>sample_steps = 4, sample_interval = Some 0.3\<rparr> X =
       (Inr \<lparr>sample_steps = 4, sample_interval = Some 0.3\<rparr>,
        \<lparr>sample_steps = 4, sample_interval = Some 0.3\<rparr>)
   \<and> AdditiveChi2Sampler_fit \<lparr>sample_steps = 4, sample_interval = None\<rparr> X =
       (Inl (ValueError ''If sample_steps is not in [1, 2, 3], you needto provide sample_interval''),
        \<lparr>sample_steps = 4, sample_interval = None\<rparr>)"
  by (simp add: AdditiveChi2Sampler_fit_def Let_def)

lemma refit_interval_set:
  "sample_interval self = Some v \<Longrightarrow>
   refit self calls =
     Inr (self\<lparr>sample_steps := (if calls = [] then sample_steps self else fst (last calls))\<rparr>)"
proof (induction calls arbitrary: self)
  case Nil
  then show ?case by simp
next
  case (Cons c calls)
  obtain s X where c: "c = (s, X)" by (cases c)
  have "sample_interval (self\<lparr>sample_steps := s\<rparr>) = Some v"
    using Cons.prems by simp
  then show ?case
    using Cons.IH[of "self\<lparr>sample_steps := s\<rparr>"] c by (simp add: fit_interval_set)
qed

text \<open>
  Claim C10. When \<open>fit\<close> succeeds on an object whose \<open>sample_interval\<close> is unset, the
  object it leaves (and returns) holds the derived interval in \<open>sample_interval\<close> itself.
  Every later \<open>fit\<close> on that object then succeeds and changes nothing, whatever value
  \<open>sample_steps\<close> has been given meanwhile, also one outside 1, 2, 3, and so does every
  sequence of such calls: the interval is never derived again.
\<close>

theorem refit_keeps_interval:
  assumes "AdditiveChi2Sampler_fit \<lparr>sample_steps = s, sample_interval = None\<rparr> X = (Inr r, self')"
  shows "r = self' \<and> sample_steps self' = s
     \<and> sample_interval self' = Some (if s = 1 then 0.8 else if s = 2 then 0.5 else 0.4)
     \<and> AdditiveChi2Sampler_fit (self'\<lparr>sample_steps := s'\<rparr>) X' =
         (Inr (self'\<lparr>sample_steps := s'\<rparr>), self'\<lparr>sample_steps := s'\<rparr>)
     \<and> refit self' calls =
         Inr (self'\<lparr>sample_steps := (if calls = [] then s else fst (last calls))\<rparr>)"
proof -
  from assms have s: "s = 1 \<or> s = 2 \<or> s = 3"
    by (auto simp: AdditiveChi2Sampler_fit_def Let_def split: if_splits)
  from assms s have self': "self' = \<lparr>sample_steps = s,
      sample_interval = Some (if s = 1 then 0.8 else if s = 2 then 0.5 else 0.4)\<rparr>"
    and r: "r = self'"
    by (auto simp: AdditiveChi2Sampler_fit_def Let_def split: if_splits)
  show ?thesis
    using r refit_interval_set[of self' _ calls]
      fit_interval_set[of "self'\<lparr>sample_steps := s'\<rparr>" _ X']
    by (simp add: self')
qed

theorem refit_keeps_interval_witness:
  "AdditiveChi2Sampler_fit \<lparr>sample_steps = 2, sample_interval = None\<rparr> \<lparr>ncols = 1, rows = [[1]]\<rparr>
     = (Inr \<lparr>sample_steps = 2, sample_interval = Some 0.5\<rparr>,
        \<lparr>sample_steps = 2, sample_interval = Some 0.5\<rparr>)
   \<and> AdditiveChi2Sampler_fit \<lparr>sample_steps = 7, sample_interval = Some 0.5\<rparr>
        \<lparr>ncols = 1, rows = [[3]]\<rparr>
     = (Inr \<lparr>sample_steps = 7, sample_interval = Some 0.5\<rparr>,
        \<lparr>sample_steps = 7, sample_interval = Some 0.5\<rparr>)
   \<and> refit \<lparr>sample_steps = 2, sample_interval = Some 0.5\<rparr>
        [(7, \<lparr>ncols = 1, rows = [[3]]\<rparr>), (- 1, \<lparr>ncols = 1, rows = [[3]]\<rparr>)]
     = Inr \<lparr>sample_steps = - 1, sample_interval = Some 0.5\<rparr>"
proof -
  have h: "AdditiveChi2Sampler_fit \<lparr>sample_steps = 2, sample_interval = None\<rparr>
             \<lparr>ncols = 1, rows = [[1]]\<rparr>
           = (Inr \<lparr>sample_steps = 2, sample_interval = Some 0.5\<rparr>,
              \<lparr>sample_steps = 2, sample_interval = Some 0.5\<rparr>)"
    by (simp add: AdditiveChi2Sampler_fit_def Let_def)
  show ?thesis
    using h refit_keeps_interval[OF h, of 7 "\<lparr>ncols = 1, rows = [[3]]\<rparr>"
        "[(7, \<lparr>ncols = 1, rows = [[3]]\<rparr>), (- 1, \<lparr>ncols = 1, rows = [[3]]\<rparr>)]"]
    by (simp del: refit.simps)
qed

subsection \<open>AdditiveChi2Sampler.transform\<close>

lemma hstack_other_message:
  "hstack Ms \<noteq> Inl (ValueError ''Entries of X must be strictly positive.'')"
  by (cases Ms) simp_all

text \<open>
  Claim C8. \<open>transform\<close> raises the invalid-input error exactly when some entry of \<open>X\<close> is
  zero or negative. The test is the first thing \<open>transform\<close> does: the error is raised
  for every state of the object, also with the interval unset, in place of any output,
  and the object is left as it was.
\<close>

theorem transform_rejects_nonpositive:
  "(fst (AdditiveChi2Sampler_transform self X) =
      Inl (ValueError ''Entries of X must be strictly positive.'')
    \<longleftrightarrow> (\<exists>r \<in> set (rows X). \<exists>x \<in> set r. x \<le> 0))
   \<and> snd (AdditiveChi2Sampler_transform self X) = self"
  by (simp add: AdditiveChi2Sampler_transform_def any_entry_def list_ex_iff Let_def
      hstack_other_message split: option.splits)

subsection \<open>The draws of fit\<close>

lemma gen_after_0 [simp]: "gen_after d 0 g = g"
  by (simp add: gen_after_def)

lemma gen_after_Suc: "gen_after d (Suc k) g = gen_after d k (snd (d g))"
  unfolding gen_after_def by (simp only: funpow_Suc_right o_apply)

lemma gen_after_add: "gen_after d a (gen_after d b g) = gen_after d (a + b) g"
  by (simp add: gen_after_def funpow_add)

lemma nth_draw_0: "nth_draw d 0 g = fst (d g)"
  by (simp add: nth_draw_def)

lemma nth_draw_Suc: "nth_draw d (Suc k) g = nth_draw d k (snd (d g))"
  by (simp add: nth_draw_def gen_after_Suc)

lemma nth_draw_add: "nth_draw d k (gen_after d b g) = nth_draw d (k + b) g"
  by (simp add: nth_draw_def gen_after_add)

lemma draw_list_eq:
  "draw_list d n g = (map (\<lambda>k. nth_draw d k g) [0..<n], gen_after d n g)"
proof (induction n arbitrary: g)
  case 0
  show ?case by simp
next
  case (Suc n)
  have "map (\<lambda>k. nth_draw d k g) [0..<Suc n] =
        nth_draw d 0 g # map (\<lambda>k. nth_draw d (Suc k) g) [0..<n]"
    by (simp only: upt_conv_Cons[of 0 "Suc n"] map_Suc_upt[symmetric] list.map map_map o_def
        zero_less_Suc if_True)
  then show ?case
    by (simp add: Suc.IH split_beta nth_draw_0 nth_draw_Suc gen_after_Suc del: upt_Suc)
qed

lemma draw_rows_eq:
  "draw_rows d r c g =
     (map (\<lambda>i. map (\<lambda>j. nth_draw d (i * c + j) g) [0..<c]) [0..<r], gen_after d (r * c) g)"
proof (induction r arbitrary: g)
  case 0
  show ?case by simp
next
  case (Suc r)
  have "map (\<lambda>i. map (\<lambda>j. nth_draw d (i * c + j) g) [0..<c]) [0..<Suc r] =
        map (\<lambda>j. nth_draw d j g) [0..<c] #
        map (\<lambda>i. map (\<lambda>j. nth_draw d (Suc i * c + j) g) [0..<c]) [0..<r]"
    by (simp only: upt_conv_Cons[of 0 "Suc r"] map_Suc_upt[symmetric] list.map map_map o_def)
      simp
  moreover have "\<And>i j. nth_draw d (i * c + j) (gen_after d c g) = nth_draw d (Suc i * c + j) g"
    by (simp add: nth_draw_add add.commute add.left_commute)
  ultimately show ?case
    by (simp add: Suc.IH draw_list_eq gen_after_add add.commute del: upt_Suc)
qed

lemma RBFSampler_fit_eq:
  "RBFSampler_fit R self X =
     (let g0 = check_random_state R (random_state self);
          n = nat (n_components self);
          g1 = gen_after (normal1 R) (ncols X * n) g0
      in if n_components self < 0
         then (Inl (ValueError ''negative dimensions are not allowed''),
               self\<lparr>random_state := RS_Instance g0\<rparr>)
         else (let self' = self\<lparr>
                  random_state := RS_Instance (gen_after (uniform1 R 0 (2 * pi)) n g1),
                  random_weights := Some \<lparr>ncols = n,
                      rows = map (\<lambda>i. map (\<lambda>j. sqrt (gamma self) *
                                nth_draw (normal1 R) (i * n + j) g0) [0..<n]) [0..<ncols X]\<rparr>,
                  random_offset := Some (map (\<lambda>j. nth_draw (uniform1 R 0 (2 * pi)) j g1) [0..<n])\<rparr>
               in (Inr self', self')))"
  by (simp add: RBFSampler_fit_def RandomState_normal_def RandomState_uniform_def Let_def
      draw_rows_eq draw_list_eq map_matrix_def o_def)

lemma SkewedChi2Sampler_fit_eq:
  "SkewedChi2Sampler_fit R self X =
     (let g0 = check_random_state R (random_state self);
          n = nat (n_components self);
          g1 = gen_after (uniform1 R 0 1) (ncols X * n) g0
      in if n_components self < 0
         then (Inl (ValueError ''negative dimensions are not allowed''),
               self\<lparr>random_state := RS_Instance g0\<rparr>)
         else (let self' = self\<lparr>
                  random_state := RS_Instance (gen_after (uniform1 R 0 (2 * pi)) n g1),
                  random_weights := Some \<lparr>ncols = n,
                      rows = map (\<lambda>i. map (\<lambda>j. 1 / pi * ln (tan (pi / 2 *
                                nth_draw (uniform1 R 0 1) (i * n + j) g0))) [0..<n]) [0..<ncols X]\<rparr>,
                  random_offset := Some (map (\<lambda>j. nth_draw (uniform1 R 0 (2 * pi)) j g1) [0..<n])\<rparr>
               in (Inr self', self')))"
  by (simp add: SkewedChi2Sampler_fit_def RandomState_uniform2_def RandomState_uniform_def Let_def
      draw_rows_eq draw_list_eq map_matrix_def o_def)

subsection \<open>RBFSampler.transform and SkewedChi2Sampler.transform\<close>

lemma dot_sum:
  "length u = length v \<Longrightarrow> dot u v = (\<Sum>k<length u. u ! k * v ! k)"
  by (simp add: dot_def sum_list_sum_nth atLeast0LessThan)

lemma dot_column:
  assumes "length r = nrows W"
  shows "dot r (column W j) = (\<Sum>k<nrows W. r ! k * entry W k j)"
  using assms dot_sum[of r "column W j"]
  by (simp add: column_def nrows_def entry_def)

lemma safe_sparse_dot_eq:
  "ncols A = nrows B \<Longrightarrow>
   safe_sparse_dot A B =
     Inr \<lparr>ncols = ncols B,
          rows = map (\<lambda>r. map (\<lambda>j. dot r (column B j)) [0..<ncols B]) (rows A)\<rparr>"
  by (simp add: safe_sparse_dot_def)

lemma cos_features_eq:
  "random_offset self = Some b \<Longrightarrow> length b = ncols P \<Longrightarrow>
   cos_features self P =
     Inr \<lparr>ncols = ncols P,
          rows = map (\<lambda>r. map (\<lambda>v. sqrt 2 / sqrt (real_of_int (n_components self)) * cos v)
                          (map2 (+) r b)) (rows P)\<rparr>"
  by (simp add: cos_features_def add_broadcast_def map_matrix_def o_def)

lemma cos_features_entries:
  assumes "cos_features self P = Inr Y" "r \<in> set (rows Y)" "y \<in> set r"
  shows "\<exists>t. y = sqrt 2 / sqrt (real_of_int (n_components self)) * cos t"
  using assms
  by (auto simp: cos_features_def add_broadcast_def map_matrix_def
      split: option.splits if_splits sum.splits) blast+

lemma scaled_cos_bound:
  assumes "0 \<le> n"
  shows "- sqrt (2 / real_of_int n) \<le> sqrt 2 / sqrt (real_of_int n) * cos t
       \<and> sqrt 2 / sqrt (real_of_int n) * cos t \<le> sqrt (2 / real_of_int n)"
proof -
  let ?c = "sqrt 2 / sqrt (real_of_int n)"
  have c: "0 \<le> ?c" using assms by simp
  have eq: "sqrt (2 / real_of_int n) = ?c" by (simp add: real_sqrt_divide)
  have "\<bar>?c * cos t\<bar> = ?c * \<bar>cos t\<bar>"
    using c by (simp only: abs_mult abs_of_nonneg)
  also have "\<dots> \<le> ?c * 1"
    using c by (intro mult_left_mono abs_cos_le_one)
  finally have h: "\<bar>?c * cos t\<bar> \<le> ?c" by (simp only: mult_1_right)
  show ?thesis using h unfolding eq abs_le_iff by linarith
qed

lemma RBFSampler_fit_Inr:
  assumes "RBFSampler_fit R self0 X0 = (Inr self, st)"
  shows "st = self" and "0 \<le> n_components self0"
    and "n_components self = n_components self0" and "gamma self = gamma self0"
    and "random_weights self = Some \<lparr>ncols = nat (n_components self0),
           rows = map (\<lambda>i. map (\<lambda>j. sqrt (gamma self0) *
                    nth_draw (normal1 R) (i * nat (n_components self0) + j)
                      (check_random_state R (random_state self0)))
                  [0..<nat (n_components self0)]) [0..<ncols X0]\<rparr>"
    and "random_offset self = Some (map (\<lambda>j. nth_draw (uniform1 R 0 (2 * pi)) j
           (gen_after (normal1 R) (ncols X0 * nat (n_components self0))
              (check_random_state R (random_state self0))))
           [0..<nat (n_components self0)])"
  using assms by (auto simp: RBFSampler_fit_eq Let_def split: if_splits)

lemma SkewedChi2Sampler_fit_Inr:
  assumes "SkewedChi2Sampler_fit R self0 X0 = (Inr self, st)"
  shows "st = self" and "0 \<le> n_components self0"
    and "n_components self = n_components self0" and "skewedness self = skewedness self0"
    and "random_weights self = Some \<lparr>ncols = nat (n_components self0),
           rows = map (\<lambda>i. map (\<lambda>j. 1 / pi * ln (tan (pi / 2 *
                    nth_draw (uniform1 R 0 1) (i * nat (n_components self0) + j)
                      (check_random_state R (random_state self0)))))
                  [0..<nat (n_components self0)]) [0..<ncols X0]\<rparr>"
    and "random_offset self = Some (map (\<lambda>j. nth_draw (uniform1 R 0 (2 * pi)) j
           (gen_after (uniform1 R 0 1) (ncols X0 * nat (n_components self0))
              (check_random_state R (random_state self0))))
           [0..<nat (n_components self0)])"
  using assms by (auto simp: SkewedChi2Sampler_fit_eq Let_def split: if_splits)

text \<open>What the last line of both transforms gives on a projection of the fitted width.\<close>

lemma projected_features:
  fixes self :: "('g, 'a) sampler_attrs_scheme"
  assumes W: "random_weights self = Some W" and b: "random_offset self = Some b"
    and shape: "nrows W = ncols A" "length b = ncols W"
    and A: "wf_matrix A"
  shows "\<exists>Y. (case safe_sparse_dot A W of Inl e \<Rightarrow> Inl e | Inr P \<Rightarrow> cos_features self P) = Inr Y
     \<and> nrows Y = nrows A \<and> ncols Y = ncols W \<and> wf_matrix Y
     \<and> (\<forall>i<nrows A. \<forall>j<ncols W.
          entry Y i j = sqrt 2 / sqrt (real_of_int (n_components self)) *
            cos ((\<Sum>k<ncols A. entry A i k * entry W k j) + b ! j))"
proof -
  let ?P = "\<lparr>ncols = ncols W,
          rows = map (\<lambda>r. map (\<lambda>j. dot r (column W j)) [0..<ncols W]) (rows A)\<rparr>"
  let ?c = "sqrt 2 / sqrt (real_of_int (n_components self))"
  let ?Y = "\<lparr>ncols = ncols ?P,
          rows = map (\<lambda>r. map (\<lambda>v. ?c * cos v) (map2 (+) r b)) (rows ?P)\<rparr>"
  have dotP: "safe_sparse_dot A W = Inr ?P"
    using shape by (simp add: safe_sparse_dot_eq)
  have cf: "cos_features self ?P = Inr ?Y"
    using b shape by (intro cos_features_eq) simp_all
  have rowlen: "\<And>i. i < nrows A \<Longrightarrow> length (rows A ! i) = nrows W"
    using A shape by (simp add: wf_matrix_def list_all_length nrows_def)
  have ent: "entry ?Y i j = ?c * cos ((\<Sum>k<ncols A. entry A i k * entry W k j) + b ! j)"
    if "i < nrows A" "j < ncols W" for i j
    using that shape rowlen[OF that(1)] dot_column[of "rows A ! i" W j]
    by (simp add: entry_def nrows_def)
  have "wf_matrix ?Y"
    using shape by (simp add: wf_matrix_def list_all_iff)
  moreover have "nrows ?Y = nrows A" "ncols ?Y = ncols W"
    by (simp_all add: nrows_def)
  ultimately show ?thesis
    using dotP cf ent by (intro exI[of _ ?Y]) (simp del: matrix.simps)
qed

lemma wf_map_matrix: "wf_matrix (map_matrix f M) = wf_matrix M"
  by (simp add: wf_matrix_def map_matrix_def list_all_iff)

lemma entry_map_matrix:
  "i < nrows M \<Longrightarrow> j < length (rows M ! i) \<Longrightarrow> entry (map_matrix f M) i j = f (entry M i j)"
  by (simp add: entry_def map_matrix_def nrows_def)

lemma demo_fit_rbf:
  "RBFSampler_fit demo_rng
     \<lparr>n_components = 1, random_state = RS_Instance 0, random_weights = None,
      random_offset = None, gamma = 1\<rparr> \<lparr>ncols = 2, rows = [[1, 2]]\<rparr>
   = (Inr \<lparr>n_components = 1, random_state = RS_Instance 3,
           random_weights = Some \<lparr>ncols = 1, rows = [[1], [2]]\<rparr>,
           random_offset = Some [pi / 2], gamma = 1\<rparr>,
      \<lparr>n_components = 1, random_state = RS_Instance 3,
           random_weights = Some \<lparr>ncols = 1, rows = [[1], [2]]\<rparr>,
           random_offset = Some [pi / 2], gamma = 1\<rparr>)"
  by (simp add: RBFSampler_fit_def RandomState_normal_def RandomState_uniform_def
      check_random_state_def demo_rng_def map_matrix_def Let_def numeral_2_eq_2)

lemma demo_fit_skewed:
  "SkewedChi2Sampler_fit demo_rng
     \<lparr>n_components = 1, random_state = RS_Instance 0, random_weights = None,
      random_offset = None, skewedness = 1\<rparr> \<lparr>ncols = 1, rows = [[0]]\<rparr>
   = (Inr \<lparr>n_components = 1, random_state = RS_Instance 2,
           random_weights = Some \<lparr>ncols = 1, rows = [[0]]\<rparr>,
           random_offset = Some [2 * pi / 3], skewedness = 1\<rparr>,
      \<lparr>n_components = 1, random_state = RS_Instance 2,
           random_weights = Some \<lparr>ncols = 1, rows = [[0]]\<rparr>,
           random_offset = Some [2 * pi / 3], skewedness = 1\<rparr>)"
  by (simp add: SkewedChi2Sampler_fit_def RandomState_uniform2_def RandomState_uniform_def
      check_random_state_def demo_rng_def map_matrix_def Let_def tan_45)

text \<open>
  Claim C1. For a fitted \<open>RBFSampler\<close> and an input \<open>X\<close> with the feature count seen by
  \<open>fit\<close>, \<open>transform\<close> returns the array whose entry \<open>(i, j)\<close> is
  \<open>sqrt 2 / sqrt n_components * cos (projection + random_offset)\<close>, where the projection
  is the matrix product of \<open>X\<close> and \<open>random_weights\<close>. For a fitted
  \<open>SkewedChi2Sampler\<close> and an input with no negative entry it returns the same expression,
  with the same scaling constant, where the projection is the product of the element-wise
  logarithm of \<open>X + skewedness\<close> and \<open>random_weights\<close>.
\<close>

theorem transform_formula:
  assumes fitted: "RBFSampler_fit R self0 X0 = (Inr self, st)"
    and W: "random_weights self = Some W" and b: "random_offset self = Some b"
    and X: "wf_matrix X" "ncols X = ncols X0"
    and fitted': "SkewedChi2Sampler_fit R' sk0 Z0 = (Inr sk, st')"
    and W': "random_weights sk = Some W'" and b': "random_offset sk = Some b'"
    and Z: "wf_matrix Z" "ncols Z = ncols Z0" "\<not> any_entry (\<lambda>x. x < 0) Z"
  shows "(\<exists>Y. RBFSampler_transform self X = (Inr Y, self)
           \<and> nrows Y = nrows X \<and> ncols Y = nat (n_components self) \<and> wf_matrix Y
           \<and> (\<forall>i<nrows X. \<forall>j<nat (n_components self).
                entry Y i j = sqrt 2 / sqrt (real_of_int (n_components self)) *
                  cos ((\<Sum>k<ncols X. entry X i k * entry W k j) + b ! j)))
       \<and> (\<exists>Y. SkewedChi2Sampler_transform sk Z = (Inr Y, sk)
           \<and> nrows Y = nrows Z \<and> ncols Y = nat (n_components sk) \<and> wf_matrix Y
           \<and> (\<forall>i<nrows Z. \<forall>j<nat (n_components sk).
                entry Y i j = sqrt 2 / sqrt (real_of_int (n_components sk)) *
                  cos ((\<Sum>k<ncols Z. ln (entry Z i k + skewedness sk) * entry W' k j) + b' ! j)))"
proof
  note f = RBFSampler_fit_Inr[OF fitted]
  have shape: "nrows W = ncols X" "length b = ncols W" "ncols W = nat (n_components self)"
    using f(3,5,6) W b X(2) by (auto simp: nrows_def)
  from projected_features[OF W b shape(1,2) X(1)] shape(3)
  show "\<exists>Y. RBFSampler_transform self X = (Inr Y, self)
           \<and> nrows Y = nrows X \<and> ncols Y = nat (n_components self) \<and> wf_matrix Y
           \<and> (\<forall>i<nrows X. \<forall>j<nat (n_components self).
                entry Y i j = sqrt 2 / sqrt (real_of_int (n_components self)) *
                  cos ((\<Sum>k<ncols X. entry X i k * entry W k j) + b ! j))"
    by (auto simp: RBFSampler_transform_def W split: sum.splits)
next
  note f = SkewedChi2Sampler_fit_Inr[OF fitted']
  let ?L = "map_matrix ln (map_matrix (\<lambda>x. x + skewedness sk) Z)"
  have shape: "nrows W' = ncols ?L" "length b' = ncols W'" "ncols W' = nat (n_components sk)"
    using f(3,5,6) W' b' Z(2) by (auto simp: nrows_def map_matrix_def)
  have L: "wf_matrix ?L" "nrows ?L = nrows Z" "ncols ?L = ncols Z"
    using Z(1) by (simp_all add: wf_map_matrix) (simp_all add: map_matrix_def nrows_def)
  have entL: "entry ?L i k = ln (entry Z i k + skewedness sk)"
    if "i < nrows Z" "k < ncols Z" for i k
    using that Z(1)
    by (simp add: entry_def map_matrix_def nrows_def wf_matrix_def list_all_length)
  from projected_features[OF W' b' shape(1,2) L(1)]
  obtain Y where Y: "(case safe_sparse_dot ?L W' of Inl e \<Rightarrow> Inl e
                      | Inr P \<Rightarrow> cos_features sk P) = Inr Y"
      "nrows Y = nrows ?L" "ncols Y = ncols W'" "wf_matrix Y"
      "\<forall>i<nrows ?L. \<forall>j<ncols W'.
          entry Y i j = sqrt 2 / sqrt (real_of_int (n_components sk)) *
            cos ((\<Sum>k<ncols ?L. entry ?L i k * entry W' k j) + b' ! j)"
    by blast
  have tr: "SkewedChi2Sampler_transform sk Z = (Inr Y, sk)"
    using Y(1) Z(3) by (auto simp: SkewedChi2Sampler_transform_def W' Let_def split: sum.splits)
  have "entry Y i j = sqrt 2 / sqrt (real_of_int (n_components sk)) *
          cos ((\<Sum>k<ncols Z. ln (entry Z i k + skewedness sk) * entry W' k j) + b' ! j)"
    if "i < nrows Z" "j < nat (n_components sk)" for i j
  proof -
    have "(\<Sum>k<ncols ?L. entry ?L i k * entry W' k j) =
          (\<Sum>k<ncols Z. ln (entry Z i k + skewedness sk) * entry W' k j)"
      unfolding L(3) by (rule sum.cong) (simp_all add: entL that(1))
    then show ?thesis using Y(5) that L(2) shape(3) by simp
  qed
  then show "\<exists>Y. SkewedChi2Sampler_transform sk Z = (Inr Y, sk)
           \<and> nrows Y = nrows Z \<and> ncols Y = nat (n_components sk) \<and> wf_matrix Y
           \<and> (\<forall>i<nrows Z. \<forall>j<nat (n_components sk).
                entry Y i j = sqrt 2 / sqrt (real_of_int (n_components sk)) *
                  cos ((\<Sum>k<ncols Z. ln (entry Z i k + skewedness sk) * entry W' k j) + b' ! j))"
    using tr Y(2,3,4) L(2) shape(3) by (intro exI[of _ Y]) simp
qed

theorem transform_formula_witness:
  "(\<exists>Y. RBFSampler_transform
          \<lparr>n_components = 1, random_state = RS_Instance (3::nat),
           random_weights = Some \<lparr>ncols = 1, rows = [[1], [2]]\<rparr>,
           random_offset = Some [pi / 2], gamma = 1\<rparr> \<lparr>ncols = 2, rows = [[1, 2]]\<rparr>
        = (Inr Y, \<lparr>n_components = 1, random_state = RS_Instance 3,
           random_weights = Some \<lparr>ncols = 1, rows = [[1], [2]]\<rparr>,
           random_offset = Some [pi / 2], gamma = 1\<rparr>)
      \<and> nrows Y = 1 \<and> ncols Y = 1
      \<and> entry Y 0 0 = sqrt 2 / sqrt 1 * cos ((1 * 1 + 2 * 2) + pi / 2))
   \<and> (\<exists>Y. SkewedChi2Sampler_transform
          \<lparr>n_components = 1, random_state = RS_Instance (2::nat),
           random_weights = Some \<lparr>ncols = 1, rows = [[0]]\<rparr>,
           random_offset = Some [2 * pi / 3], skewedness = 1\<rparr> \<lparr>ncols = 1, rows = [[3]]\<rparr>
        = (Inr Y, \<lparr>n_components = 1, random_state = RS_Instance 2,
           random_weights = Some \<lparr>ncols = 1, rows = [[0]]\<rparr>,
           random_offset = Some [2 * pi / 3], skewedness = 1\<rparr>)
      \<and> nrows Y = 1 \<and> ncols Y = 1
      \<and> entry Y 0 0 = sqrt 2 / sqrt 1 * cos (ln (3 + 1) * 0 + 2 * pi / 3))"
proof -
  have X: "wf_matrix \<lparr>ncols = 2, rows = [[1, 2]]\<rparr>"
    "ncols \<lparr>ncols = 2, rows = [[1, 2]]\<rparr> = ncols \<lparr>ncols = 2, rows = [[1, 2]]\<rparr>"
    by (simp_all add: wf_matrix_def)
  have Z: "wf_matrix \<lparr>ncols = 1, rows = [[3]]\<rparr>"
    "ncols \<lparr>ncols = 1, rows = [[3]]\<rparr> = ncols \<lparr>ncols = 1, rows = [[0]]\<rparr>"
    "\<not> any_entry (\<lambda>x. x < 0) \<lparr>ncols = 1, rows = [[3]]\<rparr>"
    by (simp_all add: wf_matrix_def any_entry_def)
  show ?thesis
    using transform_formula[OF demo_fit_rbf _ _ X demo_fit_skewed _ _ Z,
        of "\<lparr>ncols = 1, rows = [[1], [2]]\<rparr>" "[pi / 2]"
           "\<lparr>ncols = 1, rows = [[0]]\<rparr>" "[2 * pi / 3]"]
    by (simp add: nrows_def entry_def numeral_2_eq_2 lessThan_Suc) blast
qed

text \<open>
  Claim C9. For a fitted \<open>RBFSampler\<close> and an input \<open>X\<close> with the feature count seen by
  \<open>fit\<close>, \<open>transform\<close> returns an array, and every entry of it lies between
  \<open>- sqrt (2 / n_components)\<close> and \<open>sqrt (2 / n_components)\<close>.
\<close>

theorem transform_bounded:
  assumes fitted: "RBFSampler_fit R self0 X0 = (Inr self, st)"
    and X: "ncols X = ncols X0"
  shows "\<exists>Y. RBFSampler_transform self X = (Inr Y, self)
           \<and> (\<forall>r \<in> set (rows Y). \<forall>y \<in> set r.
                - sqrt (2 / real_of_int (n_components self)) \<le> y
                \<and> y \<le> sqrt (2 / real_of_int (n_components self)))"
proof -
  note f = RBFSampler_fit_Inr[OF fitted]
  obtain W b where W: "random_weights self = Some W" and b: "random_offset self = Some b"
    and shape: "nrows W = ncols X" "length b = ncols W"
    using f(5,6) X by (auto simp: nrows_def)
  obtain P where P: "safe_sparse_dot X W = Inr P" "ncols P = ncols W"
    using shape(1) by (simp add: safe_sparse_dot_eq)
  obtain Y where Y: "cos_features self P = Inr Y"
    using cos_features_eq[OF b, of P] shape(2) P(2) by simp
  have n: "0 \<le> n_components self" using f(2,3) by simp
  have "- sqrt (2 / real_of_int (n_components self)) \<le> y
      \<and> y \<le> sqrt (2 / real_of_int (n_components self))"
    if r: "r \<in> set (rows Y)" and y: "y \<in> set r" for r y
  proof -
    obtain t where "y = sqrt 2 / sqrt (real_of_int (n_components self)) * cos t"
      using cos_features_entries[OF Y r y] by blast
    then show ?thesis using scaled_cos_bound[OF n, of t] by simp
  qed
  moreover have "RBFSampler_transform self X = (Inr Y, self)"
    by (simp add: RBFSampler_transform_def W P Y)
  ultimately show ?thesis by blast
qed

theorem transform_bounded_witness:
  "\<exists>Y. RBFSampler_transform
          \<lparr>n_components = 1, random_state = RS_Instance (3::nat),
           random_weights = Some \<lparr>ncols = 1, rows = [[1], [2]]\<rparr>,
           random_offset = Some [pi / 2], gamma = 1\<rparr> \<lparr>ncols = 2, rows = [[1, 2]]\<rparr>
        = (Inr Y, \<lparr>n_components = 1, random_state = RS_Instance 3,
           random_weights = Some \<lparr>ncols = 1, rows = [[1], [2]]\<rparr>,
           random_offset = Some [pi / 2], gamma = 1\<rparr>)
      \<and> list_all (list_all (\<lambda>y. - sqrt (2 / 1) \<le> y \<and> y \<le> sqrt (2 / 1))) (rows Y)"
  using transform_bounded[OF demo_fit_rbf, of "\<lparr>ncols = 2, rows = [[1, 2]]\<rparr>"]
  by (simp add: list_all_iff)

lemma safe_sparse_dot_other_message:
  "safe_sparse_dot A B \<noteq> Inl (ValueError ''X may not contain entries smaller than zero.'')"
  by (simp add: safe_sparse_dot_def)

lemma cos_features_other_message:
  "cos_features self P \<noteq> Inl (ValueError ''X may not contain entries smaller than zero.'')"
  by (simp add: cos_features_def add_broadcast_def split: option.splits)

text \<open>
  Claim C7. \<open>SkewedChi2Sampler.transform\<close> raises the invalid-input error exactly when some
  entry of \<open>X\<close> is smaller than zero. The error stands in place of any output, and the
  object, with its \<open>random_weights\<close> and \<open>random_offset\<close>, is left as it was.
\<close>

theorem transform_rejects_negative:
  "(fst (SkewedChi2Sampler_transform self X) =
      Inl (ValueError ''X may not contain entries smaller than zero.'')
    \<longleftrightarrow> (\<exists>r \<in> set (rows X). \<exists>x \<in> set r. x < 0))
   \<and> snd (SkewedChi2Sampler_transform self X) = self"
  using safe_sparse_dot_other_message cos_features_other_message
  by (auto simp: SkewedChi2Sampler_transform_def any_entry_def list_ex_iff Let_def
      split: option.splits sum.splits)

subsection \<open>RBFSampler.fit and SkewedChi2Sampler.fit\<close>

lemma demo_uniform_range:
  assumes "low < high"
  shows "low < fst (uniform1 demo_rng low high g) \<and> fst (uniform1 demo_rng low high g) < high"
proof -
  have "low * (1 + real g) < high * (1 + real g)"
    using assms by (intro mult_strict_right_mono) simp_all
  then have "low + low * real g < high + high * real g"
    by (simp add: algebra_simps)
  then show ?thesis
    using assms by (simp add: demo_rng_def field_simps)
qed

text \<open>
  Claim C4. \<open>RBFSampler.fit\<close> (with \<open>n_components\<close> not negative, on any input \<open>X\<close>,
  so also on one with at least a row and a column) sets \<open>random_weights\<close> to an array of
  \<open>n_features\<close> rows and \<open>n_components\<close> columns whose entry \<open>(i, j)\<close> is draw number
  \<open>i * n_components + j\<close> of the generator's standard-normal draws times \<open>sqrt gamma\<close>,
  sets \<open>random_offset\<close> to the next \<open>n_components\<close> draws of \<open>uniform(0, 2 * pi)\<close>, which
  lie in \<open>[0, 2 * pi)\<close> when the generator's uniform draws lie within their bounds, and
  returns the object itself. Each entry has a draw of its own; that the draws are
  independent and normal is the generator's business.
\<close>

theorem rbf_fit_draws:
  assumes n: "0 \<le> n_components self"
    and U: "\<forall>g. 0 \<le> fst (uniform1 R 0 (2 * pi) g) \<and> fst (uniform1 R 0 (2 * pi) g) < 2 * pi"
  shows "\<exists>self' W b. RBFSampler_fit R self X = (Inr self', self')
      \<and> random_weights self' = Some W \<and> random_offset self' = Some b
      \<and> n_components self' = n_components self \<and> gamma self' = gamma self
      \<and> nrows W = ncols X \<and> ncols W = nat (n_components self) \<and> wf_matrix W
      \<and> (\<forall>i<ncols X. \<forall>j<nat (n_components self).
            entry W i j = sqrt (gamma self) *
              nth_draw (normal1 R) (i * nat (n_components self) + j)
                (check_random_state R (random_state self)))
      \<and> length b = nat (n_components self)
      \<and> (\<forall>j<nat (n_components self).
            b ! j = nth_draw (uniform1 R 0 (2 * pi)) j
                      (gen_after (normal1 R) (ncols X * nat (n_components self))
                         (check_random_state R (random_state self)))
            \<and> 0 \<le> b ! j \<and> b ! j < 2 * pi)"
  using n U
  by (simp add: RBFSampler_fit_eq Let_def nrows_def wf_matrix_def list_all_iff entry_def
      nth_draw_def)

theorem rbf_fit_draws_witness:
  "0 \<le> (1::int)
   \<and> (\<forall>g. 0 \<le> fst (uniform1 demo_rng 0 (2 * pi) g) \<and> fst (uniform1 demo_rng 0 (2 * pi) g) < 2 * pi)
   \<and> RBFSampler_fit demo_rng
     \<lparr>n_components = 1, random_state = RS_Instance 0, random_weights = None,
      random_offset = None, gamma = 1\<rparr> \<lparr>ncols = 2, rows = [[1, 2]]\<rparr>
   = (Inr \<lparr>n_components = 1, random_state = RS_Instance 3,
           random_weights = Some \<lparr>ncols = 1, rows = [[1], [2]]\<rparr>,
           random_offset = Some [pi / 2], gamma = 1\<rparr>,
      \<lparr>n_components = 1, random_state = RS_Instance 3,
           random_weights = Some \<lparr>ncols = 1, rows = [[1], [2]]\<rparr>,
           random_offset = Some [pi / 2], gamma = 1\<rparr>)
   \<and> 0 \<le> [pi / 2] ! 0 \<and> [pi / 2] ! 0 < 2 * pi"
proof -
  have U: "\<forall>g. 0 \<le> fst (uniform1 demo_rng 0 (2 * pi) g)
             \<and> fst (uniform1 demo_rng 0 (2 * pi) g) < 2 * pi"
    using demo_uniform_range[of 0 "2 * pi"] by (simp add: less_imp_le)
  have n: "0 \<le> n_components \<lparr>n_components = 1, random_state = RS_Instance (0::nat),
      random_weights = None, random_offset = None, gamma = 1\<rparr>" by simp
  from rbf_fit_draws[OF n U, of "\<lparr>ncols = 2, rows = [[1, 2]]\<rparr>"] U demo_fit_rbf
  show ?thesis by simp
qed

lemma sech_cdf_deriv: "(sech_cdf has_real_derivative 1 / cosh (pi * w)) (at w)"
proof -
  have e: "exp (pi * w) * exp (- (pi * w)) = 1"
    by (simp add: exp_minus)
  have "(sech_cdf has_real_derivative
          2 / pi * (1 / (1 + (exp (pi * w))\<^sup>2) * (exp (pi * w) * pi))) (at w)"
    unfolding sech_cdf_def by (auto intro!: derivative_eq_intros simp: divide_inverse)
  moreover have "2 / pi * (1 / (1 + (exp (pi * w))\<^sup>2) * (exp (pi * w) * pi)) = 1 / cosh (pi * w)"
  proof -
    have pos: "0 < 1 + (exp (pi * w))\<^sup>2" by (simp add: add_pos_nonneg)
    have "cosh (pi * w) = (1 + (exp (pi * w))\<^sup>2) / (2 * exp (pi * w))"
      by (simp add: cosh_def exp_minus field_simps power2_eq_square)
    then show ?thesis using pos by (simp add: field_simps)
  qed
  ultimately show ?thesis by simp
qed

lemma sech_inverse_cdf:
  assumes "0 < u" "u < 1"
  shows "0 < tan (pi / 2 * u)" and "sech_cdf (1 / pi * ln (tan (pi / 2 * u))) = u"
proof -
  have r: "0 < pi / 2 * u" "pi / 2 * u < pi / 2"
    using assms by simp_all
  show t: "0 < tan (pi / 2 * u)"
    using r by (rule tan_gt_zero)
  have a: "arctan (tan (pi / 2 * u)) = pi / 2 * u"
    using r by (intro arctan_tan) linarith+
  have "sech_cdf (1 / pi * ln (tan (pi / 2 * u))) = 2 / pi * arctan (exp (ln (tan (pi / 2 * u))))"
    by (simp add: sech_cdf_def)
  also have "\<dots> = 2 / pi * arctan (tan (pi / 2 * u))"
    using t by (simp only: exp_ln)
  also have "\<dots> = 2 / pi * (pi / 2 * u)"
    by (simp only: a)
  also have "\<dots> = u"
    by simp
  finally show "sech_cdf (1 / pi * ln (tan (pi / 2 * u))) = u" .
qed

text \<open>
  Claim C5. \<open>SkewedChi2Sampler.fit\<close> draws an array of \<open>n_features\<close> rows and
  \<open>n_components\<close> columns of \<open>uniform(0, 1)\<close> values, one draw \<open>u\<close> per entry, and sets
  the entry of \<open>random_weights\<close> to \<open>1 / pi * ln (tan (pi / 2 * u))\<close>. With the draws in
  the open interval \<open>(0, 1)\<close> this is the value at which the distribution function of
  the \<open>sech\<close> density is \<open>u\<close>.
\<close>

theorem skewed_fit_draws:
  assumes n: "0 \<le> n_components self"
    and U: "\<forall>g. 0 < fst (uniform1 R 0 1 g) \<and> fst (uniform1 R 0 1 g) < 1"
  shows "\<exists>self' W. SkewedChi2Sampler_fit R self X = (Inr self', self')
      \<and> random_weights self' = Some W
      \<and> nrows W = ncols X \<and> ncols W = nat (n_components self) \<and> wf_matrix W
      \<and> (\<forall>i<ncols X. \<forall>j<nat (n_components self).
            \<exists>u. u = nth_draw (uniform1 R 0 1) (i * nat (n_components self) + j)
                       (check_random_state R (random_state self))
              \<and> 0 < u \<and> u < 1
              \<and> entry W i j = 1 / pi * ln (tan (pi / 2 * u))
              \<and> sech_cdf (entry W i j) = u)"
proof -
  have u: "0 < nth_draw (uniform1 R 0 1) k g \<and> nth_draw (uniform1 R 0 1) k g < 1" for k g
    using U by (simp add: nth_draw_def)
  show ?thesis
    using n u sech_inverse_cdf(2)
    by (simp add: SkewedChi2Sampler_fit_eq Let_def nrows_def wf_matrix_def list_all_iff entry_def)
qed

theorem skewed_fit_draws_witness:
  "0 \<le> (1::int)
   \<and> (\<forall>g. 0 < fst (uniform1 demo_rng 0 1 g) \<and> fst (uniform1 demo_rng 0 1 g) < 1)
   \<and> (\<exists>self' W. SkewedChi2Sampler_fit demo_rng
        \<lparr>n_components = 1, random_state = RS_Instance 0, random_weights = None,
         random_offset = None, skewedness = 1\<rparr> \<lparr>ncols = 1, rows = [[0]]\<rparr> = (Inr self', self')
      \<and> random_weights self' = Some W \<and> nrows W = 1 \<and> ncols W = 1
      \<and> nth_draw (uniform1 demo_rng 0 1) 0 0 = 1 / 2
      \<and> entry W 0 0 = 1 / pi * ln (tan (pi / 2 * (1 / 2)))
      \<and> sech_cdf (entry W 0 0) = 1 / 2)"
proof -
  have U: "\<forall>g. 0 < fst (uniform1 demo_rng 0 1 g) \<and> fst (uniform1 demo_rng 0 1 g) < 1"
    using demo_uniform_range[of 0 1] by simp
  have n: "0 \<le> n_components \<lparr>n_components = 1, random_state = RS_Instance (0::nat),
      random_weights = None, random_offset = None, skewedness = 1\<rparr>" by simp
  have d: "nth_draw (uniform1 demo_rng 0 1) 0 0 = 1 / 2"
    by (simp add: nth_draw_def demo_rng_def)
  from skewed_fit_draws[OF n U, of "\<lparr>ncols = 1, rows = [[0]]\<rparr>"]
  obtain self' W where fit: "SkewedChi2Sampler_fit demo_rng
        \<lparr>n_components = 1, random_state = RS_Instance 0, random_weights = None,
         random_offset = None, skewedness = 1\<rparr> \<lparr>ncols = 1, rows = [[0]]\<rparr> = (Inr self', self')"
    and W: "random_weights self' = Some W" "nrows W = 1" "ncols W = 1"
    and E: "\<And>i j. i < 1 \<Longrightarrow> j < 1 \<Longrightarrow>
            \<exists>u. u = nth_draw (uniform1 demo_rng 0 1) (i * 1 + j) 0
              \<and> 0 < u \<and> u < 1
              \<and> entry W i j = 1 / pi * ln (tan (pi / 2 * u))
              \<and> sech_cdf (entry W i j) = u"
    by (auto simp: check_random_state_def)
  have "0 < (1::nat)" by simp
  from E[OF this this] have "entry W 0 0 = 1 / pi * ln (tan (pi / 2 * (1 / 2)))"
    and "sech_cdf (entry W 0 0) = 1 / 2"
    unfolding mult_zero_left add_0 d by blast+
  with fit W U d show ?thesis by auto
qed

text \<open>
  Claim C3 says that \<open>fit\<close> scales the normal draws by \<open>sqrt (2 * gamma)\<close>. The code scales
  them by \<open>sqrt gamma\<close>: with \<open>gamma = 1\<close> and the draw 1 the weight is 1, not \<open>sqrt 2\<close>.
\<close>

theorem rbf_weights_scaled_by_sqrt_gamma:
  "RBFSampler_fit demo_rng
     \<lparr>n_components = 1, random_state = RS_Instance 0, random_weights = None,
      random_offset = None, gamma = 1\<rparr> \<lparr>ncols = 1, rows = [[1]]\<rparr>
   = (Inr \<lparr>n_components = 1, random_state = RS_Instance 2,
           random_weights = Some \<lparr>ncols = 1, rows = [[1]]\<rparr>,
           random_offset = Some [2 * pi / 3], gamma = 1\<rparr>,
      \<lparr>n_components = 1, random_state = RS_Instance 2,
           random_weights = Some \<lparr>ncols = 1, rows = [[1]]\<rparr>,
           random_offset = Some [2 * pi / 3], gamma = 1\<rparr>)
   \<and> nth_draw (normal1 demo_rng) 0 0 = 1
   \<and> sqrt (2 * 1) * nth_draw (normal1 demo_rng) 0 0 \<noteq> 1"
  by (simp add: RBFSampler_fit_def RandomState_normal_def RandomState_uniform_def
      check_random_state_def demo_rng_def map_matrix_def Let_def nth_draw_def)

subsection \<open>The layout of the output of AdditiveChi2Sampler.transform\<close>

lemma map_matrix_comp: "map_matrix f (map_matrix g X) = map_matrix (\<lambda>x. f (g x)) X"
  by (simp add: map_matrix_def o_def)

lemma map2_matrix_same:
  "map2_matrix f (map_matrix g X) (map_matrix h X) = map_matrix (\<lambda>x. f (g x) (h x)) X"
proof -
  have r: "map2 f (map g r) (map h r) = map (\<lambda>x. f (g x) (h x)) r" for r :: "real list"
    by (induction r) simp_all
  have "map2 (map2 f) (map (map g) rs) (map (map h) rs) = map (map (\<lambda>x. f (g x) (h x))) rs"
    for rs :: "real list list"
    by (induction rs) (simp_all add: r)
  then show ?thesis by (simp add: map2_matrix_def map_matrix_def)
qed

lemma chi2_loop_eq:
  "chi2_loop si (map_matrix (\<lambda>x. 2 * x * si) X) (map_matrix (\<lambda>v. si * v) (map_matrix ln X)) js acc
   = acc @ map (\<lambda>f. map_matrix f X)
             (concat (map (\<lambda>j. [chi2_component_cos si j, chi2_component_sin si j]) js))"
proof (induction js arbitrary: acc)
  case Nil
  show ?case by simp
next
  case (Cons j js)
  have cf: "chi2_component_cos si j =
      (\<lambda>x. sqrt (2 * x * si / cosh (pi * real_of_int j * si)) * cos (real_of_int j * si * ln x))"
    by (rule ext) (simp add: chi2_component_cos_def)
  have sf: "chi2_component_sin si j =
      (\<lambda>x. sqrt (2 * x * si / cosh (pi * real_of_int j * si)) * sin (real_of_int j * si * ln x))"
    by (rule ext) (simp add: chi2_component_sin_def)
  have c: "map2_matrix (*)
        (map_matrix sqrt (map_matrix (\<lambda>v. v / cosh (pi * real_of_int j * si))
           (map_matrix (\<lambda>x. 2 * x * si) X)))
        (map_matrix cos (map_matrix (\<lambda>v. real_of_int j * v)
           (map_matrix (\<lambda>v. si * v) (map_matrix ln X))))
      = map_matrix (chi2_component_cos si j) X"
    by (simp add: map_matrix_comp map2_matrix_same cf mult.assoc)
  have s: "map2_matrix (*)
        (map_matrix sqrt (map_matrix (\<lambda>v. v / cosh (pi * real_of_int j * si))
           (map_matrix (\<lambda>x. 2 * x * si) X)))
        (map_matrix sin (map_matrix (\<lambda>v. real_of_int j * v)
           (map_matrix (\<lambda>v. si * v) (map_matrix ln X))))
      = map_matrix (chi2_component_sin si j) X"
    by (simp add: map_matrix_comp map2_matrix_same sf mult.assoc)
  show ?case
    by (simp only: chi2_loop.simps Let_def c s Cons.IH) simp
qed

lemma hstack_map_matrix:
  assumes "fs \<noteq> []"
  shows "hstack (map (\<lambda>f. map_matrix f X) fs) =
     Inr \<lparr>ncols = ncols X * length fs,
          rows = map (\<lambda>r. concat (map (\<lambda>f. map f r) fs)) (rows X)\<rparr>"
proof -
  obtain f fs' where fs: "fs = f # fs'" using assms by (cases fs) auto
  have n: "sum_list (map (\<lambda>f. ncols (map_matrix f X)) fs) = ncols X * length fs"
    by (induction fs) (simp_all add: map_matrix_def)
  have r: "map (hstack_row (map (\<lambda>f. map_matrix f X) fs)) [0..<length (rows X)]
         = map (\<lambda>r. concat (map (\<lambda>f. map f r) fs)) (rows X)"
    by (rule nth_equalityI) (simp_all add: hstack_row_def map_matrix_def o_def)
  have "list_all (\<lambda>N. nrows N = nrows (map_matrix f X)) (map (\<lambda>f. map_matrix f X) fs')"
    by (simp add: list_all_iff nrows_def map_matrix_def)
  then show ?thesis
    using n r unfolding fs
    by (simp add: nrows_def o_def) (simp add: map_matrix_def)
qed

lemma AdditiveChi2Sampler_transform_eq:
  assumes si: "sample_interval self = Some si" and pos: "\<not> any_entry (\<lambda>x. x \<le> 0) X"
  shows "AdditiveChi2Sampler_transform self X =
           (Inr (component_major si (sample_steps self) X), self)"
proof -
  have z: "map_matrix sqrt (map_matrix (\<lambda>x. x * si / cosh 0) X) = map_matrix (\<lambda>x. sqrt (x * si)) X"
    by (simp add: map_matrix_comp)
  have loop: "chi2_loop si (map_matrix (\<lambda>x. 2 * x * si) X)
          (map_matrix (\<lambda>v. si * v) (map_matrix ln X)) (xrange1 (sample_steps self))
          [map_matrix sqrt (map_matrix (\<lambda>x. x * si / cosh 0) X)]
        = map (\<lambda>f. map_matrix f X) (chi2_components si (sample_steps self))"
    unfolding z chi2_loop_eq chi2_components_def by simp
  have ne: "chi2_components si (sample_steps self) \<noteq> []"
    by (simp add: chi2_components_def)
  have "AdditiveChi2Sampler_transform self X =
          (hstack (chi2_loop si (map_matrix (\<lambda>x. 2 * x * si) X)
             (map_matrix (\<lambda>v. si * v) (map_matrix ln X)) (xrange1 (sample_steps self))
             [map_matrix sqrt (map_matrix (\<lambda>x. x * si / cosh 0) X)]), self)"
    using pos by (simp only: AdditiveChi2Sampler_transform_def Let_def si if_False option.case)
  then show ?thesis
    by (simp only: loop hstack_map_matrix[OF ne] component_major_def)
qed

lemma concat_nth_uniform:
  "\<forall>l \<in> set ls. length l = n \<Longrightarrow> b < length ls \<Longrightarrow> k < n \<Longrightarrow>
   concat ls ! (b * n + k) = ls ! b ! k"
proof (induction ls arbitrary: b)
  case Nil
  then show ?case by simp
next
  case (Cons l ls)
  show ?case
  proof (cases b)
    case 0
    then show ?thesis using Cons.prems by (simp add: nth_append)
  next
    case (Suc b')
    have "concat (l # ls) ! (Suc b' * n + k) = concat ls ! (b' * n + k)"
      using Cons.prems(1) by (simp add: nth_append)
    then show ?thesis using Cons.IH[of b'] Cons.prems Suc by simp
  qed
qed

lemma length_concat_uniform:
  "\<forall>l \<in> set ls. length l = n \<Longrightarrow> length (concat ls) = length ls * n"
  by (induction ls) simp_all

lemma length_pairs: "length (concat (map (\<lambda>j. [a j, b j]) js)) = 2 * length js"
  by (induction js) simp_all

lemma nth_pairs:
  "m < length js \<Longrightarrow>
   concat (map (\<lambda>j. [a j, b j]) js) ! (2 * m) = a (js ! m)
   \<and> concat (map (\<lambda>j. [a j, b j]) js) ! Suc (2 * m) = b (js ! m)"
proof (induction js arbitrary: m)
  case Nil
  then show ?case by simp
next
  case (Cons j js)
  then show ?case by (cases m) simp_all
qed

lemma length_chi2_components:
  "1 \<le> steps \<Longrightarrow> length (chi2_components si steps) = nat (2 * steps - 1)"
  by (simp add: chi2_components_def length_pairs xrange1_def)

lemma nth_chi2_components:
  assumes "1 \<le> j" "j \<le> steps - 1"
  shows "chi2_components si steps ! nat (2 * j - 1) = chi2_component_cos si j"
    and "chi2_components si steps ! nat (2 * j) = chi2_component_sin si j"
proof -
  let ?m = "nat (j - 1)"
  have m: "?m < length (xrange1 steps)" "xrange1 steps ! ?m = j"
    using assms by (simp_all add: xrange1_def)
  have i: "nat (2 * j - 1) = Suc (2 * ?m)" "nat (2 * j) = Suc (Suc (2 * ?m))"
    using assms by simp_all
  from nth_pairs[OF m(1), of "chi2_component_cos si" "chi2_component_sin si"] m(2)
  show "chi2_components si steps ! nat (2 * j - 1) = chi2_component_cos si j"
    and "chi2_components si steps ! nat (2 * j) = chi2_component_sin si j"
    unfolding i chi2_components_def by simp_all
qed

lemma component_major_shape:
  assumes "wf_matrix X"
  shows "nrows (component_major si steps X) = nrows X"
    and "wf_matrix (component_major si steps X)"
proof -
  show "nrows (component_major si steps X) = nrows X"
    by (simp add: component_major_def nrows_def)
  have "length (concat (map (\<lambda>f. map f r) (chi2_components si steps)))
        = length (chi2_components si steps) * ncols X"
    if "length r = ncols X" for r :: "real list"
    using that
      length_concat_uniform[of "map (\<lambda>f. map f r) (chi2_components si steps)" "ncols X"]
    by simp
  then show "wf_matrix (component_major si steps X)"
    using assms by (simp add: component_major_def wf_matrix_def list_all_iff mult.commute)
qed

lemma component_major_entry:
  assumes "wf_matrix X" "i < nrows X" "k < ncols X" "b < length (chi2_components si steps)"
  shows "entry (component_major si steps X) i (b * ncols X + k)
         = (chi2_components si steps ! b) (entry X i k)"
proof -
  have len: "length (rows X ! i) = ncols X"
    using assms(1,2) by (simp add: wf_matrix_def list_all_length nrows_def)
  have "concat (map (\<lambda>f. map f (rows X ! i)) (chi2_components si steps)) ! (b * ncols X + k)
        = map (\<lambda>f. map f (rows X ! i)) (chi2_components si steps) ! b ! k"
    using assms(3,4) len by (intro concat_nth_uniform) simp_all
  then show ?thesis
    using assms len by (simp add: component_major_def entry_def nrows_def)
qed

text \<open>
  Claim C2, amended. With \<open>sample_interval\<close> set, \<open>sample_steps\<close> at least 1 and every
  entry of \<open>X\<close> strictly positive, \<open>transform\<close> returns an array with the rows of \<open>X\<close> and
  \<open>n * (2 * sample_steps - 1)\<close> columns, made of \<open>2 * sample_steps - 1\<close> blocks of \<open>n\<close>
  columns side by side: the first block holds the zeroth components \<open>sqrt (x * sample_interval)\<close>
  of the \<open>n\<close> features in input order, block \<open>2 * j - 1\<close> their cosine components and
  block \<open>2 * j\<close> their sine components for step \<open>j\<close>, for \<open>j\<close> from 1 to \<open>sample_steps - 1\<close>.
  With one step, the interval 0.8 and the input \<open>[[1, 2]]\<close> the result has one row and
  two columns, \<open>sqrt (x * 0.8)\<close> for each \<open>x\<close>.
\<close>

theorem additive_transform_layout:
  assumes si: "sample_interval self = Some si"
    and steps: "1 \<le> sample_steps self"
    and X: "wf_matrix X"
    and pos: "\<forall>r \<in> set (rows X). \<forall>x \<in> set r. 0 < x"
  shows "(\<exists>Y. AdditiveChi2Sampler_transform self X = (Inr Y, self)
      \<and> Y = component_major si (sample_steps self) X
      \<and> nrows Y = nrows X \<and> ncols Y = ncols X * nat (2 * sample_steps self - 1)
      \<and> wf_matrix Y
      \<and> (\<forall>i<nrows X. \<forall>k<ncols X.
            entry Y i k = sqrt (entry X i k * si)
          \<and> (\<forall>j \<in> {1..sample_steps self - 1}.
                entry Y i (nat (2 * j - 1) * ncols X + k) = chi2_component_cos si j (entry X i k)
              \<and> entry Y i (nat (2 * j) * ncols X + k) = chi2_component_sin si j (entry X i k))))
    \<and> AdditiveChi2Sampler_transform \<lparr>sample_steps = 1, sample_interval = Some 0.8\<rparr>
          \<lparr>ncols = 2, rows = [[1, 2]]\<rparr>
        = (Inr \<lparr>ncols = 2, rows = [[sqrt (1 * 0.8), sqrt (2 * 0.8)]]\<rparr>,
           \<lparr>sample_steps = 1, sample_interval = Some 0.8\<rparr>)"
proof
  let ?s = "sample_steps self"
  let ?Y = "component_major si ?s X"
  have ok: "\<not> any_entry (\<lambda>x. x \<le> 0) X"
    using pos by (auto simp: any_entry_def list_ex_iff not_le)
  have len: "length (chi2_components si ?s) = nat (2 * ?s - 1)"
    using steps by (rule length_chi2_components)
  have zero: "entry ?Y i k = sqrt (entry X i k * si)" if "i < nrows X" "k < ncols X" for i k
    using component_major_entry[OF X that, of 0 si ?s]
    by (simp add: chi2_components_def)
  have pair: "entry ?Y i (nat (2 * j - 1) * ncols X + k) = chi2_component_cos si j (entry X i k)
            \<and> entry ?Y i (nat (2 * j) * ncols X + k) = chi2_component_sin si j (entry X i k)"
    if ik: "i < nrows X" "k < ncols X" and j: "j \<in> {1..?s - 1}" for i k j
  proof -
    have j': "1 \<le> j" "j \<le> ?s - 1" using j by simp_all
    have b: "nat (2 * j - 1) < length (chi2_components si ?s)"
      "nat (2 * j) < length (chi2_components si ?s)"
      unfolding len using j' by simp_all
    show ?thesis
      using component_major_entry[OF X ik b(1)] component_major_entry[OF X ik b(2)]
        nth_chi2_components[OF j', of si]
      by simp
  qed
  have "ncols ?Y = ncols X * nat (2 * ?s - 1)"
    by (simp add: component_major_def len)
  then show "\<exists>Y. AdditiveChi2Sampler_transform self X = (Inr Y, self)
      \<and> Y = component_major si (sample_steps self) X
      \<and> nrows Y = nrows X \<and> ncols Y = ncols X * nat (2 * sample_steps self - 1)
      \<and> wf_matrix Y
      \<and> (\<forall>i<nrows X. \<forall>k<ncols X.
            entry Y i k = sqrt (entry X i k * si)
          \<and> (\<forall>j \<in> {1..sample_steps self - 1}.
                entry Y i (nat (2 * j - 1) * ncols X + k) = chi2_component_cos si j (entry X i k)
              \<and> entry Y i (nat (2 * j) * ncols X + k) = chi2_component_sin si j (entry X i k)))"
    using AdditiveChi2Sampler_transform_eq[OF si ok] component_major_shape[OF X, of si ?s]
      zero pair
    by (intro exI[of _ ?Y]) blast
next
  have ok: "\<not> any_entry (\<lambda>x. x \<le> 0) \<lparr>ncols = 2, rows = [[1, 2]]\<rparr>"
    by (simp add: any_entry_def)
  have si: "sample_interval \<lparr>sample_steps = 1, sample_interval = Some 0.8\<rparr> = Some 0.8"
    by simp
  show "AdditiveChi2Sampler_transform \<lparr>sample_steps = 1, sample_interval = Some 0.8\<rparr>
          \<lparr>ncols = 2, rows = [[1, 2]]\<rparr>
        = (Inr \<lparr>ncols = 2, rows = [[sqrt (1 * 0.8), sqrt (2 * 0.8)]]\<rparr>,
           \<lparr>sample_steps = 1, sample_interval = Some 0.8\<rparr>)"
    unfolding AdditiveChi2Sampler_transform_eq[OF si ok]
    by (simp add: component_major_def chi2_components_def xrange1_def)
qed

theorem additive_transform_layout_witness:
  "1 \<le> (2::int) \<and> wf_matrix \<lparr>ncols = 2, rows = [[1, 2]]\<rparr>
   \<and> (\<exists>Y. AdditiveChi2Sampler_transform \<lparr>sample_steps = 2, sample_interval = Some (1 / 2)\<rparr>
            \<lparr>ncols = 2, rows = [[1, 2]]\<rparr>
          = (Inr Y, \<lparr>sample_steps = 2, sample_interval = Some (1 / 2)\<rparr>)
        \<and> nrows Y = 1 \<and> ncols Y = 6
        \<and> entry Y 0 0 = sqrt (1 * (1 / 2)) \<and> entry Y 0 1 = sqrt (2 * (1 / 2))
        \<and> entry Y 0 2 = chi2_component_cos (1 / 2) 1 1
        \<and> entry Y 0 3 = chi2_component_cos (1 / 2) 1 2
        \<and> entry Y 0 4 = chi2_component_sin (1 / 2) 1 1
        \<and> entry Y 0 5 = chi2_component_sin (1 / 2) 1 2)"
proof -
  let ?self = "\<lparr>sample_steps = 2, sample_interval = Some (1 / 2)\<rparr>"
  let ?X = "\<lparr>ncols = 2, rows = [[1, 2]]\<rparr>"
  have si: "sample_interval ?self = Some (1 / 2)" by simp
  have steps: "1 \<le> sample_steps ?self" by simp
  have X: "wf_matrix ?X" by (simp add: wf_matrix_def)
  have pos: "\<forall>r \<in> set (rows ?X). \<forall>x \<in> set r. 0 < x" by simp
  from additive_transform_layout[OF si steps X pos]
  obtain Y where tr: "AdditiveChi2Sampler_transform ?self ?X = (Inr Y, ?self)"
    and shape: "nrows Y = nrows ?X" "ncols Y = ncols ?X * nat (2 * sample_steps ?self - 1)"
    and E: "\<And>i k. i < nrows ?X \<Longrightarrow> k < ncols ?X \<Longrightarrow>
            entry Y i k = sqrt (entry ?X i k * (1 / 2))
          \<and> (\<forall>j \<in> {1..sample_steps ?self - 1}.
                entry Y i (nat (2 * j - 1) * ncols ?X + k) = chi2_component_cos (1 / 2) j (entry ?X i k)
              \<and> entry Y i (nat (2 * j) * ncols ?X + k) = chi2_component_sin (1 / 2) j (entry ?X i k))"
    by blast
  have i: "0 < nrows ?X" and k0: "0 < ncols ?X" and k1: "1 < ncols ?X"
    by (simp_all add: nrows_def)
  have j: "(1::int) \<in> {1..sample_steps ?self - 1}" by simp
  have e0: "entry Y 0 0 = sqrt (1 * (1 / 2))"
    and e2: "entry Y 0 2 = chi2_component_cos (1 / 2) 1 1"
    and e4: "entry Y 0 4 = chi2_component_sin (1 / 2) 1 1"
    using conjunct1[OF E[OF i k0]] bspec[OF conjunct2[OF E[OF i k0]] j]
    by (simp_all add: entry_def)
  have e1: "entry Y 0 1 = sqrt (2 * (1 / 2))"
    and e3: "entry Y 0 3 = chi2_component_cos (1 / 2) 1 2"
    and e5: "entry Y 0 5 = chi2_component_sin (1 / 2) 1 2"
    using conjunct1[OF E[OF i k1]] bspec[OF conjunct2[OF E[OF i k1]] j]
    by (simp_all add: entry_def)
  have "nrows Y = 1" "ncols Y = 6"
    using shape by (simp_all add: nrows_def)
  with tr X e0 e1 e2 e3 e4 e5 show ?thesis by auto
qed


lemma chi2_component_at_one:
  "chi2_component_cos (1 / 2) 1 1 \<noteq> 0" "chi2_component_sin (1 / 2) 1 1 = 0"
  by (simp_all add: chi2_component_cos_def chi2_component_sin_def)

text \<open>
  Claim C2 as stated puts the expansions of the features one after the other: zeroth,
  cosine and sine component of the first feature, then those of the second. With two
  steps, the interval 0.5 and the input \<open>[[1, 2]]\<close> column 2 of the output then holds the
  sine component of the value 1, which is 0; the code has the cosine component of the
  value 1 there, which is not 0.
\<close>

theorem feature_major_counterexample:
  "AdditiveChi2Sampler_transform \<lparr>sample_steps = 2, sample_interval = Some (1 / 2)\<rparr>
      \<lparr>ncols = 2, rows = [[1, 2]]\<rparr>
   \<noteq> (Inr (spec_feature_major (1 / 2) 2 \<lparr>ncols = 2, rows = [[1, 2]]\<rparr>),
       \<lparr>sample_steps = 2, sample_interval = Some (1 / 2)\<rparr>)"
proof -
  let ?self = "\<lparr>sample_steps = 2, sample_interval = Some (1 / 2)\<rparr>"
  let ?X = "\<lparr>ncols = 2, rows = [[1, 2]]\<rparr>"
  have si: "sample_interval ?self = Some (1 / 2)" by simp
  have ok: "\<not> any_entry (\<lambda>x. x \<le> 0) ?X" by (simp add: any_entry_def)
  have code: "entry (component_major (1 / 2) 2 ?X) 0 2 = chi2_component_cos (1 / 2) 1 1"
    by (simp add: component_major_def chi2_components_def xrange1_def entry_def)
  have spec: "entry (spec_feature_major (1 / 2) 2 ?X) 0 2 = chi2_component_sin (1 / 2) 1 1"
    by (simp add: spec_feature_major_def spec_feature_expansion_def xrange1_def entry_def)
  have "component_major (1 / 2) 2 ?X \<noteq> spec_feature_major (1 / 2) 2 ?X"
    using code spec chi2_component_at_one by metis
  then show ?thesis
    using AdditiveChi2Sampler_transform_eq[OF si ok] by simp
qed

end
